theory Spec2Isabelle
  imports Main "HOL-Library.Sublist"
begin

section \<open>The Python example scripts of nervemq\<close>

text \<open>
  The two scripts \<^verbatim>\<open>examples/python/example.py\<close> and
  \<^verbatim>\<open>examples/python/nervemq_example/main.py\<close> each consist of one function
  \<^verbatim>\<open>main\<close> that creates an SQS client and then makes three or four calls on it.
  The client and the queue service behind it are not part of the scripts: they are a
  parameter of the model, a function from the method name, the keyword arguments and the
  state of the outside world to a response dictionary or a raised exception, and the new
  state of the world.
\<close>

subsection \<open>Python values\<close>

text \<open>
  The values that occur in the keyword arguments and in the responses. A dictionary is an
  association list; \<^verbatim>\<open>d.get(k)\<close> is the first binding of \<open>k\<close>, and
  \<^verbatim>\<open>None\<close> when there is none.
\<close>

datatype pyval =
    PNone
  | PStr string
  | PInt int
  | PList "pyval list"
  | PDict "(string \<times> pyval) list"

type_synonym kwargs = "(string \<times> pyval) list"

type_synonym response = "(string \<times> pyval) list"

definition dict_get :: "(string \<times> pyval) list \<Rightarrow> string \<Rightarrow> pyval" where
  "dict_get d k = (case map_of d k of None \<Rightarrow> PNone | Some v \<Rightarrow> v)"

subsection \<open>Exceptions, the client, the observable events\<close>

text \<open>
  The kinds of exception a call can raise. The first three are the kinds the specification
  names; \<open>OtherError\<close> stands for every other Python exception, which the bare
  \<^verbatim>\<open>except:\<close> of the scripts catches as well.
\<close>

datatype validation = OversizePayload | InvalidHandle | MalformedAttribute | MalformedRequest

datatype error =
    TransportError
  | NotFoundError
  | ValidationError validation
  | OtherError string

text \<open>
  The client: a call names a method, passes keyword arguments and meets the outside world
  in some state; it returns a response, which is a dictionary (the scripts annotate the
  client as \<^verbatim>\<open>SQSClient\<close>, whose methods return dictionaries), or raises, and
  leaves the world in a new state.
\<close>

type_synonym 's client = "string \<Rightarrow> kwargs \<Rightarrow> 's \<Rightarrow> (error + response) \<times> 's"

text \<open>
  What a run does that can be seen from outside: a call is started (\<open>Invoke\<close>), the call
  returns or raises (\<open>Complete\<close>), a line is printed (\<open>Print\<close>, the fixed prefix of the
  f-string and the value formatted into it).
\<close>

datatype event =
    Invoke string kwargs
  | Complete "error + response"
  | Print string pyval

text \<open>One blocking call on the client: the events are its start and its completion.\<close>

definition call :: "'s client \<Rightarrow> string \<Rightarrow> kwargs \<Rightarrow> 's \<Rightarrow> (error + response) \<times> 's \<times> event list" where
  "call sqs op kw s =
     (case sqs op kw s of (r, s') \<Rightarrow> (r, s', [Invoke op kw, Complete r]))"

subsection \<open>The three steps of \<^verbatim>\<open>main\<close>\<close>

text \<open>
  Lines 16 to 22 of both scripts, with the queue name \<^verbatim>\<open>'bruh'\<close> as the argument
  \<open>name\<close>:
  \<^verbatim>\<open>
    url = None
    try:
        res = sqs.get_queue_url(QueueName='bruh')
        url = res.get('QueueUrl')
    except:
        res = sqs.create_queue(QueueName='bruh')
        url = res.get('QueueUrl')
  \<close>
  The handler has no exception class, so it runs for every exception of the lookup. An
  exception of \<^verbatim>\<open>create_queue\<close> is raised inside the handler and leaves
  \<^verbatim>\<open>main\<close>.
\<close>

definition resolve_queue :: "'s client \<Rightarrow> string \<Rightarrow> 's \<Rightarrow> (error + pyval) \<times> 's \<times> event list" where
  "resolve_queue sqs name s =
     (case call sqs ''get_queue_url'' [(''QueueName'', PStr name)] s of
        (Inr res, s1, t1) \<Rightarrow> (Inr (dict_get res ''QueueUrl''), s1, t1)
      | (Inl e, s1, t1) \<Rightarrow>
          (case call sqs ''create_queue'' [(''QueueName'', PStr name)] s1 of
             (Inr res, s2, t2) \<Rightarrow> (Inr (dict_get res ''QueueUrl''), s2, t1 @ t2)
           | (Inl e', s2, t2) \<Rightarrow> (Inl e', s2, t1 @ t2)))"

text \<open>
  Lines 26 to 32: the keyword arguments of \<^verbatim>\<open>send_message\<close>, and the call.
\<close>

definition send_kwargs :: "pyval \<Rightarrow> kwargs" where
  "send_kwargs url =
     [(''QueueUrl'', url),
      (''MessageBody'', PStr ''Hello World!''),
      (''MessageAttributes'',
         PDict [(''Test'', PDict [(''StringValue'', PStr ''TestString''),
                                  (''DataType'', PStr ''String'')])])]"

definition publish_message :: "'s client \<Rightarrow> pyval \<Rightarrow> 's \<Rightarrow> (error + response) \<times> 's \<times> event list" where
  "publish_message sqs url s = call sqs ''send_message'' (send_kwargs url) s"

text \<open>
  Lines 36 to 44: the keyword arguments of \<^verbatim>\<open>receive_message\<close>, and the call. The
  two scripts differ in \<^verbatim>\<open>MessageAttributeNames\<close>, the argument \<open>names\<close>.
\<close>

definition receive_kwargs :: "pyval list \<Rightarrow> pyval \<Rightarrow> kwargs" where
  "receive_kwargs names url =
     [(''QueueUrl'', url),
      (''AttributeNames'', PList [PStr ''All'']),
      (''MessageAttributeNames'', PList names),
      (''MaxNumberOfMessages'', PInt 10),
      (''VisibilityTimeout'', PInt 0),
      (''WaitTimeSeconds'', PInt 0),
      (''ReceiveRequestAttemptId'', PStr ''1'')]"

definition poll_receive :: "'s client \<Rightarrow> pyval list \<Rightarrow> pyval \<Rightarrow> 's \<Rightarrow> (error + response) \<times> 's \<times> event list" where
  "poll_receive sqs names url s = call sqs ''receive_message'' (receive_kwargs names url) s"

subsection \<open>The two scripts\<close>

text \<open>Lines 8 to 14: the arguments of \<^verbatim>\<open>boto3.client\<close> in each script.\<close>

definition example_config :: kwargs where
  "example_config =
     [(''service_name'', PStr ''sqs''),
      (''aws_access_key_id'', PStr ''PdNJWCvVtcc''),
      (''aws_secret_access_key'', PStr ''JosFLEGqsRdmQ4hE1ppVEZ1qKV3M3bVFN''),
      (''region_name'', PStr ''us-west-1''),
      (''endpoint_url'', PStr ''http://localhost:8080/sqs'')]"

definition nervemq_config :: kwargs where
  "nervemq_config =
     [(''service_name'', PStr ''sqs''),
      (''aws_access_key_id'', PStr ''UyTz3t56rjb''),
      (''aws_secret_access_key'', PStr ''GoLqobpKZiKyvdrGB5jmbmTizHsC12cXH''),
      (''region_name'', PStr ''us-west-1''),
      (''endpoint_url'', PStr ''http://localhost:8080/sqs'')]"

text \<open>
  \<^verbatim>\<open>main\<close>, with the client configuration and the message attribute names of the
  script: create the client, resolve the queue, print its URL, send, print the message id,
  receive, print the messages. An exception that is not caught ends the run. The creation
  of the client is a call on the outside world like the others, under the name
  \<^verbatim>\<open>boto3.client\<close>; the client object it returns is part of the state of the world
  from then on.
\<close>

definition workflow :: "kwargs \<Rightarrow> pyval list \<Rightarrow> 's client \<Rightarrow> 's \<Rightarrow> (error + unit) \<times> 's \<times> event list" where
  "workflow config names sqs s0 =
     (case call sqs ''boto3.client'' config s0 of
        (Inl e, s1, t1) \<Rightarrow> (Inl e, s1, t1)
      | (Inr _, s1, t1) \<Rightarrow>
     (case resolve_queue sqs ''bruh'' s1 of
        (Inl e, s2, t2) \<Rightarrow> (Inl e, s2, t1 @ t2)
      | (Inr url, s2, t2) \<Rightarrow>
     (case publish_message sqs url s2 of
        (Inl e, s3, t3) \<Rightarrow> (Inl e, s3, t1 @ t2 @ [Print ''Queue URL: '' url] @ t3)
      | (Inr sent, s3, t3) \<Rightarrow>
     (case poll_receive sqs names url s3 of
        (Inl e, s4, t4) \<Rightarrow>
          (Inl e, s4, t1 @ t2 @ [Print ''Queue URL: '' url] @ t3
                        @ [Print ''Message ID: '' (dict_get sent ''MessageId'')] @ t4)
      | (Inr received, s4, t4) \<Rightarrow>
          (Inr (), s4, t1 @ t2 @ [Print ''Queue URL: '' url] @ t3
                         @ [Print ''Message ID: '' (dict_get sent ''MessageId'')] @ t4
                         @ [Print ''Messages: '' (dict_get received ''Messages'')])))))"

text \<open>\<^verbatim>\<open>examples/python/example.py\<close>\<close>

definition example_main :: "'s client \<Rightarrow> 's \<Rightarrow> (error + unit) \<times> 's \<times> event list" where
  "example_main = workflow example_config [PStr ''Test'']"

text \<open>\<^verbatim>\<open>examples/python/nervemq_example/main.py\<close>\<close>

definition nervemq_main :: "'s client \<Rightarrow> 's \<Rightarrow> (error + unit) \<times> 's \<times> event list" where
  "nervemq_main = workflow nervemq_config [PStr ''All'']"

subsection \<open>Reading a run\<close>

text \<open>The keyword arguments of the calls of one method, in the order they were made.\<close>

fun invocations :: "string \<Rightarrow> event list \<Rightarrow> kwargs list" where
  "invocations op [] = []"
| "invocations op (Invoke op' kw # es) =
     (if op' = op then kw # invocations op es else invocations op es)"
| "invocations op (_ # es) = invocations op es"

text \<open>The names of the methods called, in order.\<close>

fun methods :: "event list \<Rightarrow> string list" where
  "methods [] = []"
| "methods (Invoke op kw # es) = op # methods es"
| "methods (_ # es) = methods es"

text \<open>
  A trace is sequential when every call that is started completes before anything else
  happens: each \<open>Invoke\<close> is followed at once by its \<open>Complete\<close>.
\<close>

fun sequential :: "event list \<Rightarrow> bool" where
  "sequential [] = True"
| "sequential (Invoke op kw # Complete r # es) = sequential es"
| "sequential (Print p v # es) = sequential es"
| "sequential _ = False"

text \<open>
  An attribute value carries an explicit type tag when it is a dictionary that binds
  \<^verbatim>\<open>DataType\<close> to a string; the arguments of a send call are explicitly typed when
  \<^verbatim>\<open>MessageAttributes\<close> is a dictionary all of whose values are tagged.
\<close>

fun tagged :: "pyval \<Rightarrow> bool" where
  "tagged (PDict a) = (case map_of a ''DataType'' of Some (PStr ty) \<Rightarrow> True | _ \<Rightarrow> False)"
| "tagged _ = False"

definition explicitly_typed :: "kwargs \<Rightarrow> bool" where
  "explicitly_typed kw =
     (case dict_get kw ''MessageAttributes'' of
        PDict attrs \<Rightarrow> list_all (\<lambda>(n, a). tagged a) attrs
      | _ \<Rightarrow> False)"

text \<open>
  The keyword arguments without the credentials and without the message attribute names,
  and a trace read without them.
\<close>

definition common_kwargs :: "kwargs \<Rightarrow> kwargs" where
  "common_kwargs kw =
     filter (\<lambda>(k, v). k \<notin> {''aws_access_key_id'', ''aws_secret_access_key'',
                               ''MessageAttributeNames''}) kw"

fun common_event :: "event \<Rightarrow> event" where
  "common_event (Invoke op kw) = Invoke op (common_kwargs kw)"
| "common_event e = e"

text \<open>\<^verbatim>\<open>v.get(k)\<close> for a value that is a dictionary.\<close>

definition item :: "pyval \<Rightarrow> string \<Rightarrow> pyval" where
  "item v k = (case v of PDict d \<Rightarrow> dict_get d k | _ \<Rightarrow> PNone)"

subsection \<open>Test doubles\<close>

text \<open>
  A client whose lookup fails with a transport error and whose other calls succeed; the
  state of the world is trivial.
\<close>

definition lookup_unreachable :: "unit client" where
  "lookup_unreachable op kw s =
     (if op = ''get_queue_url'' then (Inl TransportError, s)
      else if op = ''create_queue'' then
        (Inr [(''QueueUrl'', PStr ''http://localhost:8080/sqs/bruh'')], s)
      else (Inr [], s))"

text \<open>
  A client whose lookup is refused and whose create call fails with a transport error.
\<close>

definition lookup_denied :: "unit client" where
  "lookup_denied op kw s =
     (if op = ''get_queue_url'' then (Inl (OtherError ''AccessDenied''), s)
      else if op = ''create_queue'' then (Inl TransportError, s)
      else (Inr [], s))"

text \<open>
  A client with at most one queue; the state of the world tells whether the queue exists.
\<close>

definition one_queue :: "bool client" where
  "one_queue op kw s =
     (if op = ''get_queue_url'' then
        (if s then (Inr [(''QueueUrl'', PStr ''http://localhost:8080/sqs/bruh'')], s)
         else (Inl NotFoundError, s))
      else if op = ''create_queue'' then
        (Inr [(''QueueUrl'', PStr ''http://localhost:8080/sqs/bruh'')], True)
      else (Inr [], s))"

text \<open>A client every call of which succeeds with an empty response dictionary.\<close>

definition empty_responses :: "unit client" where
  "empty_responses op kw s = (Inr [], s)"

section \<open>The queue service\<close>

text \<open>
  Modelled from the spec: the queue service behind the client (the nervemq server and the
  boto3 client library), which is not among the source files. Each definition of this
  section follows the sentences of the specification quoted above it.
\<close>

subsection \<open>State\<close>

text \<open>
  Modelled from the spec: a stored message is a service-assigned MessageId, the body and
  the attribute set, in the queue named by its handle. A visibility timeout hides a message
  until a later time; the number of deliveries is the metadata a receiver is given to tell
  a new delivery from a repeated one.
\<close>

record stored_message =
  sm_queue :: string
  sm_id :: string
  sm_body :: string
  sm_attrs :: "(string \<times> pyval) list"
  sm_visible_at :: nat
  sm_deliveries :: nat

text \<open>
  Modelled from the spec: the service keeps the queues (QueueName and QueueHandle, the
  name unique), the messages in arrival order, the counter from which it assigns message
  ids, the deliveries already made under each deduplication token (handle, token,
  MessageId), and the time.
\<close>

record service =
  queues :: "(string \<times> string) list"
  store :: "stored_message list"
  next_id :: nat
  attempts :: "(string \<times> string \<times> string) list"
  clock :: nat

definition handle_of :: "string \<Rightarrow> string" where
  "handle_of name = ''http://localhost:8080/sqs/'' @ name"

definition message_id :: "nat \<Rightarrow> string" where
  "message_id n = ''m'' @ replicate n (CHR ''i'')"

subsection \<open>Operations\<close>

text \<open>
  Modelled from the spec: \<^verbatim>\<open>LookupQueue(name) -> handle | NotFoundError\<close>.
\<close>

definition svc_lookup_queue :: "string \<Rightarrow> service \<Rightarrow> error + string" where
  "svc_lookup_queue name s =
     (case map_of (queues s) name of None \<Rightarrow> Inl NotFoundError | Some h \<Rightarrow> Inr h)"

text \<open>
  Modelled from the spec: \<^verbatim>\<open>CreateQueue(name) -> handle\<close>, idempotent with respect to
  an existing queue of the same name; the handle is stable for the queue's lifetime.
\<close>

definition svc_create_queue :: "string \<Rightarrow> service \<Rightarrow> string \<times> service" where
  "svc_create_queue name s =
     (case map_of (queues s) name of
        Some h \<Rightarrow> (h, s)
      | None \<Rightarrow> (handle_of name, s\<lparr>queues := queues s @ [(name, handle_of name)]\<rparr>))"

text \<open>
  Modelled from the spec: \<^verbatim>\<open>SendMessage(handle, body, attributes) -> messageId\<close>.
  Exactly one message is enqueued per successful call and no existing message is changed;
  an invalid handle, a malformed attribute map and an oversize payload are distinct
  failures. The size limit is not given by the specification: it is the parameter
  \<open>limit\<close>.
\<close>

definition svc_send_message ::
  "nat \<Rightarrow> string \<Rightarrow> string \<Rightarrow> (string \<times> pyval) list \<Rightarrow> service \<Rightarrow> (error + string) \<times> service" where
  "svc_send_message limit h body attrs s =
     (if h \<notin> snd ` set (queues s) then (Inl (ValidationError InvalidHandle), s)
      else if \<not> list_all (\<lambda>(n, a). tagged a) attrs then
        (Inl (ValidationError MalformedAttribute), s)
      else if limit < length body then (Inl (ValidationError OversizePayload), s)
      else (Inr (message_id (next_id s)),
            s\<lparr>store := store s @
                  [\<lparr>sm_queue = h, sm_id = message_id (next_id s), sm_body = body,
                    sm_attrs = attrs, sm_visible_at = clock s, sm_deliveries = 0\<rparr>],
              next_id := Suc (next_id s)\<rparr>))"

text \<open>
  Modelled from the spec: requesting attribute name "all" returns every attribute stored
  with the message; requesting a specific subset returns only those present, omitting
  absent ones rather than erroring. The scripts write the name as \<^verbatim>\<open>'All'\<close>.
\<close>

definition select_attrs :: "string list \<Rightarrow> (string \<times> pyval) list \<Rightarrow> (string \<times> pyval) list" where
  "select_attrs names attrs =
     (if ''All'' \<in> set names then attrs else filter (\<lambda>(n, a). n \<in> set names) attrs)"

text \<open>
  Modelled from the spec: an InboundMessage is the MessageId, the body, the subset of
  requested attributes actually present, and service metadata.
\<close>

definition inbound :: "string list \<Rightarrow> stored_message \<Rightarrow> pyval" where
  "inbound names m =
     PDict [(''MessageId'', PStr (sm_id m)),
            (''Body'', PStr (sm_body m)),
            (''MessageAttributes'', PDict (select_attrs names (sm_attrs m))),
            (''Attributes'',
               PDict [(''ApproximateReceiveCount'', PInt (int (sm_deliveries m)))])]"

text \<open>
  Modelled from the spec: the messages a receive call returns are those of the queue that
  are visible now, at most \<open>maxn\<close> of them.
\<close>

definition receive_batch :: "string \<Rightarrow> nat \<Rightarrow> service \<Rightarrow> stored_message list" where
  "receive_batch h maxn s =
     take maxn (filter (\<lambda>m. sm_queue m = h \<and> sm_visible_at m \<le> clock s) (store s))"

text \<open>
  Modelled from the spec: two calls with the same token and the same queue handle are the
  same attempt, so a message already delivered under the token is not a new delivery.
\<close>

definition replayed :: "string \<Rightarrow> string option \<Rightarrow> service \<Rightarrow> stored_message \<Rightarrow> bool" where
  "replayed h token s m =
     (case token of None \<Rightarrow> False | Some t \<Rightarrow> (h, t, sm_id m) \<in> set (attempts s))"

text \<open>
  Modelled from the spec: a delivered message is hidden for the visibility timeout (not at
  all when it is 0) and counted once per attempt; no message is deleted.
\<close>

definition deliver :: "string \<Rightarrow> nat \<Rightarrow> nat \<Rightarrow> string option \<Rightarrow> service \<Rightarrow> stored_message \<Rightarrow> stored_message" where
  "deliver h maxn vt token s m =
     (if m \<in> set (receive_batch h maxn s) then
        m\<lparr>sm_visible_at := clock s + vt,
          sm_deliveries := sm_deliveries m + (if replayed h token s m then 0 else 1)\<rparr>
      else m)"

text \<open>
  Modelled from the spec:
  \<^verbatim>\<open>ReceiveMessages(handle, requestedAttributeNames, maxMessages, visibilityTimeout, waitDuration, dedupToken) -> list<InboundMessage>\<close>.
  The call returns with whatever is available: no waiting is modelled, so the wait
  duration has no effect. Zero messages is a normal outcome.
\<close>

definition svc_receive_messages ::
  "string \<Rightarrow> string list \<Rightarrow> nat \<Rightarrow> nat \<Rightarrow> nat \<Rightarrow> string option \<Rightarrow> service \<Rightarrow> (error + pyval list) \<times> service" where
  "svc_receive_messages h names maxn vt wait token s =
     (if h \<notin> snd ` set (queues s) then (Inl (ValidationError InvalidHandle), s)
      else (Inr (map (\<lambda>m. inbound names (deliver h maxn vt token s m)) (receive_batch h maxn s)),
            s\<lparr>store := map (deliver h maxn vt token s) (store s),
              attempts := attempts s @
                (case token of None \<Rightarrow> []
                 | Some t \<Rightarrow> map (\<lambda>m. (h, t, sm_id m)) (receive_batch h maxn s))\<rparr>))"

text \<open>Modelled from the spec: time passes outside the calls.\<close>

definition advance_clock :: "nat \<Rightarrow> service \<Rightarrow> service" where
  "advance_clock d s = s\<lparr>clock := clock s + d\<rparr>"

subsection \<open>The service behind the client\<close>

text \<open>Reading the keyword arguments.\<close>

fun as_str :: "pyval \<Rightarrow> string option" where
  "as_str (PStr x) = Some x"
| "as_str _ = None"

fun as_nat :: "pyval \<Rightarrow> nat option" where
  "as_nat (PInt i) = (if 0 \<le> i then Some (nat i) else None)"
| "as_nat _ = None"

fun as_dict :: "pyval \<Rightarrow> (string \<times> pyval) list option" where
  "as_dict (PDict d) = Some d"
| "as_dict _ = None"

fun as_strs :: "pyval \<Rightarrow> string list option" where
  "as_strs (PList xs) =
     (if list_all (\<lambda>x. as_str x \<noteq> None) xs then Some (map (\<lambda>x. the (as_str x)) xs) else None)"
| "as_strs _ = None"

fun as_token :: "pyval \<Rightarrow> string option option" where
  "as_token PNone = Some None"
| "as_token (PStr t) = Some (Some t)"
| "as_token _ = None"

text \<open>
  Modelled from the spec: the client library in front of the service. It maps each method
  of the client to the service operation of the same meaning; a missing or ill-typed queue
  handle is the failure "invalid handle".
\<close>

definition rpc_get_queue_url :: "kwargs \<Rightarrow> service \<Rightarrow> (error + response) \<times> service" where
  "rpc_get_queue_url kw s =
     (case as_str (dict_get kw ''QueueName'') of
        None \<Rightarrow> (Inl (ValidationError MalformedRequest), s)
      | Some name \<Rightarrow>
          (case svc_lookup_queue name s of
             Inl e \<Rightarrow> (Inl e, s)
           | Inr h \<Rightarrow> (Inr [(''QueueUrl'', PStr h)], s)))"

definition rpc_create_queue :: "kwargs \<Rightarrow> service \<Rightarrow> (error + response) \<times> service" where
  "rpc_create_queue kw s =
     (case as_str (dict_get kw ''QueueName'') of
        None \<Rightarrow> (Inl (ValidationError MalformedRequest), s)
      | Some name \<Rightarrow>
          (case svc_create_queue name s of (h, s') \<Rightarrow> (Inr [(''QueueUrl'', PStr h)], s')))"

definition rpc_send_message :: "nat \<Rightarrow> kwargs \<Rightarrow> service \<Rightarrow> (error + response) \<times> service" where
  "rpc_send_message limit kw s =
     (case as_str (dict_get kw ''QueueUrl'') of
        None \<Rightarrow> (Inl (ValidationError InvalidHandle), s)
      | Some h \<Rightarrow>
     (case as_str (dict_get kw ''MessageBody'') of
        None \<Rightarrow> (Inl (ValidationError MalformedRequest), s)
      | Some body \<Rightarrow>
     (case as_dict (dict_get kw ''MessageAttributes'') of
        None \<Rightarrow> (Inl (ValidationError MalformedAttribute), s)
      | Some attrs \<Rightarrow>
          (case svc_send_message limit h body attrs s of
             (Inl e, s') \<Rightarrow> (Inl e, s')
           | (Inr mid, s') \<Rightarrow> (Inr [(''MessageId'', PStr mid)], s')))))"

definition rpc_receive_message :: "kwargs \<Rightarrow> service \<Rightarrow> (error + response) \<times> service" where
  "rpc_receive_message kw s =
     (case as_str (dict_get kw ''QueueUrl'') of
        None \<Rightarrow> (Inl (ValidationError InvalidHandle), s)
      | Some h \<Rightarrow>
     (case (as_strs (dict_get kw ''MessageAttributeNames''),
            as_nat (dict_get kw ''MaxNumberOfMessages''),
            as_nat (dict_get kw ''VisibilityTimeout''),
            as_nat (dict_get kw ''WaitTimeSeconds''),
            as_token (dict_get kw ''ReceiveRequestAttemptId'')) of
        (Some names, Some maxn, Some vt, Some wait, Some token) \<Rightarrow>
          (case svc_receive_messages h names maxn vt wait token s of
             (Inl e, s') \<Rightarrow> (Inl e, s')
           | (Inr msgs, s') \<Rightarrow> (Inr [(''Messages'', PList msgs)], s'))
      | _ \<Rightarrow> (Inl (ValidationError MalformedRequest), s)))"

definition nervemq :: "nat \<Rightarrow> service client" where
  "nervemq limit op kw s =
     (if op = ''boto3.client'' then (Inr [], s)
      else if op = ''get_queue_url'' then rpc_get_queue_url kw s
      else if op = ''create_queue'' then rpc_create_queue kw s
      else if op = ''send_message'' then rpc_send_message limit kw s
      else if op = ''receive_message'' then rpc_receive_message kw s
      else (Inl (OtherError ''no such method''), s))"

text \<open>A service that has just been started: no queue, no message.\<close>

definition fresh :: service where
  "fresh = \<lparr>queues = [], store = [], next_id = 0, attempts = [], clock = 0\<rparr>"

text \<open>The messages of a queue, visible or not.\<close>

definition queue_messages :: "string \<Rightarrow> service \<Rightarrow> stored_message list" where
  "queue_messages h s = filter (\<lambda>m. sm_queue m = h) (store s)"

text \<open>A service with the queue of the scripts and no message.\<close>

definition bruh_only :: service where
  "bruh_only = fresh\<lparr>queues := [(''bruh'', ''http://localhost:8080/sqs/bruh'')]\<rparr>"

text \<open>
  A service whose queue holds one message that carries two attributes, \<^verbatim>\<open>Test\<close> and
  \<^verbatim>\<open>Other\<close>.
\<close>

definition two_attributes :: service where
  "two_attributes =
     bruh_only\<lparr>store :=
       [\<lparr>sm_queue = ''http://localhost:8080/sqs/bruh'', sm_id = ''m'', sm_body = ''Hello World!'',
         sm_attrs = [(''Test'', PDict [(''StringValue'', PStr ''TestString''),
                                      (''DataType'', PStr ''String'')]),
                     (''Other'', PDict [(''StringValue'', PStr ''7''),
                                       (''DataType'', PStr ''Number'')])],
         sm_visible_at = 0, sm_deliveries = 0\<rparr>],
       next_id := 1\<rparr>"

section \<open>Properties of the scripts\<close>

subsection \<open>Reading the run of one call and of the workflow\<close>

lemma call_eq:
  "call sqs op kw s =
     (fst (sqs op kw s), snd (sqs op kw s), [Invoke op kw, Complete (fst (sqs op kw s))])"
  by (simp add: call_def split: prod.splits)

lemma methods_append: "methods (xs @ ys) = methods xs @ methods ys"
  by (induction xs rule: methods.induct) simp_all

lemma invocations_append: "invocations op (xs @ ys) = invocations op xs @ invocations op ys"
  by (induction op xs rule: invocations.induct) simp_all

lemma sequential_append: "sequential xs \<Longrightarrow> sequential ys \<Longrightarrow> sequential (xs @ ys)"
  by (induction xs rule: sequential.induct) simp_all

lemma resolve_queue_methods:
  "methods (snd (snd (resolve_queue sqs name s))) = [''get_queue_url'']
   \<or> methods (snd (snd (resolve_queue sqs name s))) = [''get_queue_url'', ''create_queue'']"
  by (simp add: resolve_queue_def call_eq split: sum.splits)

lemma resolve_queue_sequential: "sequential (snd (snd (resolve_queue sqs name s)))"
  by (simp add: resolve_queue_def call_eq split: sum.splits)

lemma resolve_queue_other:
  "op \<noteq> ''get_queue_url'' \<Longrightarrow> op \<noteq> ''create_queue'' \<Longrightarrow>
   invocations op (snd (snd (resolve_queue sqs name s))) = []"
  by (simp add: resolve_queue_def call_eq split: sum.splits)

lemma resolve_queue_found:
  "fst (sqs ''get_queue_url'' [(''QueueName'', PStr name)] s) = Inr res \<Longrightarrow>
   resolve_queue sqs name s =
     (Inr (dict_get res ''QueueUrl''), snd (sqs ''get_queue_url'' [(''QueueName'', PStr name)] s),
      [Invoke ''get_queue_url'' [(''QueueName'', PStr name)], Complete (Inr res)])"
  by (simp add: resolve_queue_def call_eq)

lemma resolve_queue_raised:
  "fst (sqs ''get_queue_url'' [(''QueueName'', PStr name)] s) = Inl e \<Longrightarrow>
   resolve_queue sqs name s =
     (map_sum id (\<lambda>res. dict_get res ''QueueUrl'')
        (fst (sqs ''create_queue'' [(''QueueName'', PStr name)]
                (snd (sqs ''get_queue_url'' [(''QueueName'', PStr name)] s)))),
      snd (sqs ''create_queue'' [(''QueueName'', PStr name)]
             (snd (sqs ''get_queue_url'' [(''QueueName'', PStr name)] s))),
      [Invoke ''get_queue_url'' [(''QueueName'', PStr name)], Complete (Inl e),
       Invoke ''create_queue'' [(''QueueName'', PStr name)],
       Complete (fst (sqs ''create_queue'' [(''QueueName'', PStr name)]
                        (snd (sqs ''get_queue_url'' [(''QueueName'', PStr name)] s))))])"
  by (simp add: resolve_queue_def call_eq split: sum.splits)

text \<open>The run of the workflow, with the resolution of the queue as one step.\<close>

lemma workflow_unfold:
  "workflow config names sqs s0 =
     (case fst (sqs ''boto3.client'' config s0) of
        Inl e \<Rightarrow> (Inl e, snd (sqs ''boto3.client'' config s0),
                  [Invoke ''boto3.client'' config, Complete (Inl e)])
      | Inr c \<Rightarrow>
     (case resolve_queue sqs ''bruh'' (snd (sqs ''boto3.client'' config s0)) of (r, s2, t2) \<Rightarrow>
     (case r of
        Inl e \<Rightarrow> (Inl e, s2, [Invoke ''boto3.client'' config, Complete (Inr c)] @ t2)
      | Inr url \<Rightarrow>
     (case fst (sqs ''send_message'' (send_kwargs url) s2) of
        Inl e \<Rightarrow> (Inl e, snd (sqs ''send_message'' (send_kwargs url) s2),
                  [Invoke ''boto3.client'' config, Complete (Inr c)] @ t2 @
                  [Print ''Queue URL: '' url,
                   Invoke ''send_message'' (send_kwargs url), Complete (Inl e)])
      | Inr sent \<Rightarrow>
     (case sqs ''receive_message'' (receive_kwargs names url)
             (snd (sqs ''send_message'' (send_kwargs url) s2)) of (r4, s4) \<Rightarrow>
        (map_sum id (\<lambda>received. ()) r4, s4,
         [Invoke ''boto3.client'' config, Complete (Inr c)] @ t2 @
         [Print ''Queue URL: '' url,
          Invoke ''send_message'' (send_kwargs url), Complete (Inr sent),
          Print ''Message ID: '' (dict_get sent ''MessageId''),
          Invoke ''receive_message'' (receive_kwargs names url), Complete r4] @
         (case r4 of Inl e \<Rightarrow> []
          | Inr received \<Rightarrow> [Print ''Messages: '' (dict_get received ''Messages'')])))))))"
  by (simp add: workflow_def publish_message_def poll_receive_def call_eq
      split: sum.splits prod.splits)

lemma workflow_methods:
  "prefix (methods (snd (snd (workflow config names sqs s0))))
      [''boto3.client'', ''get_queue_url'', ''send_message'', ''receive_message'']
    \<or> prefix (methods (snd (snd (workflow config names sqs s0))))
      [''boto3.client'', ''get_queue_url'', ''create_queue'', ''send_message'', ''receive_message'']"
  using resolve_queue_methods [of sqs "''bruh''" "snd (sqs ''boto3.client'' config s0)"]
  by (auto simp: workflow_unfold methods_append split: sum.splits prod.splits)

lemma workflow_sequential: "sequential (snd (snd (workflow config names sqs s0)))"
  using resolve_queue_sequential [of sqs "''bruh''" "snd (sqs ''boto3.client'' config s0)"]
  by (auto simp: workflow_unfold sequential_append split: sum.splits prod.splits)

lemma workflow_complete:
  "fst (workflow config names sqs s0) = Inr () \<Longrightarrow>
   methods (snd (snd (workflow config names sqs s0))) \<in>
     {[''boto3.client'', ''get_queue_url'', ''send_message'', ''receive_message''],
      [''boto3.client'', ''get_queue_url'', ''create_queue'', ''send_message'', ''receive_message'']}"
  using resolve_queue_methods [of sqs "''bruh''" "snd (sqs ''boto3.client'' config s0)"]
  by (auto simp: workflow_unfold methods_append split: sum.splits prod.splits)

lemma workflow_handle:
  "invocations ''send_message'' (snd (snd (workflow config names sqs s0))) = []
     \<and> invocations ''receive_message'' (snd (snd (workflow config names sqs s0))) = []
   \<or> (\<exists>url. fst (resolve_queue sqs ''bruh'' (snd (sqs ''boto3.client'' config s0))) = Inr url
         \<and> invocations ''send_message'' (snd (snd (workflow config names sqs s0))) = [send_kwargs url]
         \<and> (invocations ''receive_message'' (snd (snd (workflow config names sqs s0))) = []
            \<or> invocations ''receive_message'' (snd (snd (workflow config names sqs s0)))
                 = [receive_kwargs names url]))"
  using resolve_queue_other [of "''send_message''" sqs "''bruh''" "snd (sqs ''boto3.client'' config s0)"]
        resolve_queue_other [of "''receive_message''" sqs "''bruh''" "snd (sqs ''boto3.client'' config s0)"]
  by (auto simp: workflow_unfold invocations_append split: sum.splits prod.splits)

lemma send_kwargs_typed: "explicitly_typed (send_kwargs url)"
  by (simp add: explicitly_typed_def send_kwargs_def dict_get_def)

lemma receive_kwargs_token: "dict_get (receive_kwargs names url) ''ReceiveRequestAttemptId'' = PStr ''1''"
  by (simp add: receive_kwargs_def dict_get_def)

lemma workflow_sends_typed:
  "list_all explicitly_typed (invocations ''send_message'' (snd (snd (workflow config names sqs s0))))"
  using workflow_handle [of config names sqs s0] by (auto simp: send_kwargs_typed)

lemma workflow_receives_token:
  "list_all (\<lambda>kw. dict_get kw ''ReceiveRequestAttemptId'' = PStr ''1'')
     (invocations ''receive_message'' (snd (snd (workflow config names sqs s0))))"
  using workflow_handle [of config names sqs s0] by (auto simp: receive_kwargs_token)

text \<open>The run of either script on the client all of whose calls return an empty dictionary.\<close>

lemma workflow_empty_responses:
  "workflow config names empty_responses () =
     (Inr (), (),
      [Invoke ''boto3.client'' config, Complete (Inr []),
       Invoke ''get_queue_url'' [(''QueueName'', PStr ''bruh'')], Complete (Inr []),
       Print ''Queue URL: '' PNone,
       Invoke ''send_message'' (send_kwargs PNone), Complete (Inr []),
       Print ''Message ID: '' PNone,
       Invoke ''receive_message'' (receive_kwargs names PNone), Complete (Inr []),
       Print ''Messages: '' PNone])"
  by (simp add: workflow_unfold resolve_queue_def call_eq empty_responses_def dict_get_def)

subsection \<open>Resolving the queue\<close>

text \<open>
  Claim C1, as stated, does not hold. The lookup of \<open>lookup_unreachable\<close> raises a
  transport error, which is not "not found"; the workflow all the same invokes
  \<^verbatim>\<open>create_queue\<close>, and the transport error does not reach the caller.
\<close>

theorem resolve_queue_fallback_counterexample:
  "fst (lookup_unreachable ''get_queue_url'' [(''QueueName'', PStr ''bruh'')] ()) = Inl TransportError
   \<and> TransportError \<noteq> NotFoundError
   \<and> fst (resolve_queue lookup_unreachable ''bruh'' ()) \<noteq> Inl TransportError
   \<and> invocations ''create_queue'' (snd (snd (resolve_queue lookup_unreachable ''bruh'' ())))
       = [[(''QueueName'', PStr ''bruh'')]]"
  by (simp add: resolve_queue_def call_eq lookup_unreachable_def)

text \<open>
  Claim C1, amended: in ResolveQueue every exception raised by the lookup call, whatever
  its kind, triggers the fallback create call, exactly once and with the same queue name.
  The error of the lookup is discarded, and the outcome of ResolveQueue is the outcome of
  that create call: the handle of its response when it succeeds, its error, untouched,
  when it raises.
\<close>

theorem resolve_queue_fallback:
  assumes "fst (sqs ''get_queue_url'' [(''QueueName'', PStr name)] s) = Inl e"
  shows "invocations ''create_queue'' (snd (snd (resolve_queue sqs name s)))
           = [[(''QueueName'', PStr name)]]
     \<and> fst (resolve_queue sqs name s)
           = map_sum id (\<lambda>res. dict_get res ''QueueUrl'')
               (fst (sqs ''create_queue'' [(''QueueName'', PStr name)]
                       (snd (sqs ''get_queue_url'' [(''QueueName'', PStr name)] s))))"
  using assms by (simp add: resolve_queue_raised)

text \<open>
  Witness for claim C1, amended: the lookup of \<open>lookup_denied\<close> is refused, the create call
  is made once and its transport error is what the caller gets.
\<close>

theorem resolve_queue_fallback_witness:
  "fst (lookup_denied ''get_queue_url'' [(''QueueName'', PStr ''bruh'')] ()) = Inl (OtherError ''AccessDenied'')
   \<and> invocations ''create_queue'' (snd (snd (resolve_queue lookup_denied ''bruh'' ())))
       = [[(''QueueName'', PStr ''bruh'')]]
   \<and> fst (resolve_queue lookup_denied ''bruh'' ()) = Inl TransportError"
proof -
  have h: "fst (lookup_denied ''get_queue_url'' [(''QueueName'', PStr ''bruh'')] ())
             = Inl (OtherError ''AccessDenied'')"
    by (simp add: lookup_denied_def)
  show ?thesis
    using h resolve_queue_fallback [of lookup_denied "''bruh''" "()" "OtherError ''AccessDenied''", OF h] by (simp add: lookup_denied_def)
qed

text \<open>
  Claim C2: in every run of ResolveQueue, if the lookup raises NotFoundError then
  \<^verbatim>\<open>create_queue\<close> is invoked exactly once within the run; if the lookup succeeds then
  \<^verbatim>\<open>create_queue\<close> is not invoked and the handle returned is the
  \<^verbatim>\<open>QueueUrl\<close> of the lookup's response.
\<close>

theorem resolve_queue_create_once:
  "(fst (sqs ''get_queue_url'' [(''QueueName'', PStr name)] s) = Inl NotFoundError \<longrightarrow>
      length (invocations ''create_queue'' (snd (snd (resolve_queue sqs name s)))) = 1)
   \<and> (\<forall>res. fst (sqs ''get_queue_url'' [(''QueueName'', PStr name)] s) = Inr res \<longrightarrow>
      invocations ''create_queue'' (snd (snd (resolve_queue sqs name s))) = []
      \<and> fst (resolve_queue sqs name s) = Inr (dict_get res ''QueueUrl''))"
  by (simp add: resolve_queue_found resolve_queue_raised)

text \<open>
  Witness for claim C2: on \<open>one_queue\<close> without the queue the lookup raises NotFoundError
  and the queue is created once; with the queue the lookup's handle is returned and
  nothing is created.
\<close>

theorem resolve_queue_create_once_witness:
  "fst (one_queue ''get_queue_url'' [(''QueueName'', PStr ''bruh'')] False) = Inl NotFoundError
   \<and> length (invocations ''create_queue'' (snd (snd (resolve_queue one_queue ''bruh'' False)))) = 1
   \<and> fst (one_queue ''get_queue_url'' [(''QueueName'', PStr ''bruh'')] True)
       = Inr [(''QueueUrl'', PStr ''http://localhost:8080/sqs/bruh'')]
   \<and> invocations ''create_queue'' (snd (snd (resolve_queue one_queue ''bruh'' True))) = []
   \<and> fst (resolve_queue one_queue ''bruh'' True) = Inr (PStr ''http://localhost:8080/sqs/bruh'')"
proof -
  have absent: "fst (one_queue ''get_queue_url'' [(''QueueName'', PStr ''bruh'')] False) = Inl NotFoundError"
    by (simp add: one_queue_def)
  have present: "fst (one_queue ''get_queue_url'' [(''QueueName'', PStr ''bruh'')] True)
                   = Inr [(''QueueUrl'', PStr ''http://localhost:8080/sqs/bruh'')]"
    by (simp add: one_queue_def)
  show ?thesis
    using absent present
      resolve_queue_create_once [of one_queue "''bruh''" False]
      resolve_queue_create_once [of one_queue "''bruh''" True]
    by (simp add: dict_get_def)
qed

subsection \<open>The workflow as a whole\<close>

text \<open>
  Claim C8: in every run of the workflow the calls are made in the order resolve
  (\<^verbatim>\<open>get_queue_url\<close>, then \<^verbatim>\<open>create_queue\<close> when the lookup raised), publish
  (\<^verbatim>\<open>send_message\<close>), poll (\<^verbatim>\<open>receive_message\<close>): the methods called are a
  prefix of that sequence, and all of it when the run completes. Each call completes
  before the next starts. The arguments of the send and of the receive call are those the
  script fixes and the handle that the resolution returned, the same for both.
\<close>

theorem workflow_order:
  "(prefix (methods (snd (snd (workflow config names sqs s0))))
      [''boto3.client'', ''get_queue_url'', ''send_message'', ''receive_message'']
    \<or> prefix (methods (snd (snd (workflow config names sqs s0))))
      [''boto3.client'', ''get_queue_url'', ''create_queue'', ''send_message'', ''receive_message''])
   \<and> sequential (snd (snd (workflow config names sqs s0)))
   \<and> (fst (workflow config names sqs s0) = Inr () \<longrightarrow>
        methods (snd (snd (workflow config names sqs s0))) \<in>
          {[''boto3.client'', ''get_queue_url'', ''send_message'', ''receive_message''],
           [''boto3.client'', ''get_queue_url'', ''create_queue'', ''send_message'',
            ''receive_message'']})
   \<and> (invocations ''send_message'' (snd (snd (workflow config names sqs s0))) = []
        \<and> invocations ''receive_message'' (snd (snd (workflow config names sqs s0))) = []
       \<or> (\<exists>url. fst (resolve_queue sqs ''bruh'' (snd (sqs ''boto3.client'' config s0))) = Inr url
             \<and> invocations ''send_message'' (snd (snd (workflow config names sqs s0)))
                  = [send_kwargs url]
             \<and> (invocations ''receive_message'' (snd (snd (workflow config names sqs s0))) = []
                \<or> invocations ''receive_message'' (snd (snd (workflow config names sqs s0)))
                     = [receive_kwargs names url])))"
  using workflow_methods [of config names sqs s0] workflow_sequential [of config names sqs s0]
    workflow_complete [of config names sqs s0] workflow_handle [of config names sqs s0]
  by blast

text \<open>
  Witness for claim C8: \<^verbatim>\<open>example.py\<close> on a client all of whose calls succeed
  completes, and calls the four methods in order.
\<close>

theorem workflow_order_witness:
  "fst (example_main empty_responses ()) = Inr ()
   \<and> methods (snd (snd (example_main empty_responses ())))
       = [''boto3.client'', ''get_queue_url'', ''send_message'', ''receive_message'']
   \<and> sequential (snd (snd (example_main empty_responses ())))"
proof -
  have completed: "fst (workflow example_config [PStr ''Test''] empty_responses ()) = Inr ()"
    by (simp add: workflow_empty_responses)
  show ?thesis
    using completed workflow_order [of example_config "[PStr ''Test'']" empty_responses "()"]
    by (simp add: example_main_def workflow_empty_responses)
qed

text \<open>
  Claim C9: given the same responses of the service (the client is created alike with
  either configuration, and a receive call is answered alike with either list of
  attribute names), the two scripts end alike, leave the world in the same state, and
  their traces are equal once the credentials and the message attribute names are left
  out: they differ in nothing else.
\<close>

theorem scripts_equivalent:
  assumes "sqs ''boto3.client'' example_config s0 = sqs ''boto3.client'' nervemq_config s0"
    and "\<forall>url s. sqs ''receive_message'' (receive_kwargs [PStr ''Test''] url) s
                  = sqs ''receive_message'' (receive_kwargs [PStr ''All''] url) s"
  shows "fst (example_main sqs s0) = fst (nervemq_main sqs s0)
     \<and> fst (snd (example_main sqs s0)) = fst (snd (nervemq_main sqs s0))
     \<and> map common_event (snd (snd (example_main sqs s0)))
         = map common_event (snd (snd (nervemq_main sqs s0)))"
proof -
  have cfg: "common_kwargs example_config = common_kwargs nervemq_config"
    by (simp add: common_kwargs_def example_config_def nervemq_config_def)
  have rcv: "common_kwargs (receive_kwargs [PStr ''Test''] url)
               = common_kwargs (receive_kwargs [PStr ''All''] url)" for url
    by (simp add: common_kwargs_def receive_kwargs_def)
  show ?thesis
    using assms cfg rcv
    by (auto simp: example_main_def nervemq_main_def workflow_unfold split: sum.splits prod.splits)
qed

text \<open>
  Witness for claim C9: on a client all of whose calls return an empty dictionary the
  two scripts make the same calls, apart from the credentials and the attribute names.
\<close>

theorem scripts_equivalent_witness:
  "empty_responses ''boto3.client'' example_config () = empty_responses ''boto3.client'' nervemq_config ()
   \<and> fst (example_main empty_responses ()) = fst (nervemq_main empty_responses ())
   \<and> map common_event (snd (snd (example_main empty_responses ())))
       = map common_event (snd (snd (nervemq_main empty_responses ())))
   \<and> snd (snd (example_main empty_responses ())) \<noteq> snd (snd (nervemq_main empty_responses ()))"
proof -
  have a: "empty_responses ''boto3.client'' example_config ()
             = empty_responses ''boto3.client'' nervemq_config ()"
    by (simp add: empty_responses_def)
  have b: "\<forall>url s. empty_responses ''receive_message'' (receive_kwargs [PStr ''Test''] url) s
                  = empty_responses ''receive_message'' (receive_kwargs [PStr ''All''] url) s"
    by (simp add: empty_responses_def)
  have differ: "snd (snd (example_main empty_responses ())) \<noteq> snd (snd (nervemq_main empty_responses ()))"
    by (simp add: example_main_def nervemq_main_def workflow_empty_responses
        example_config_def nervemq_config_def)
  show ?thesis
    using a differ scripts_equivalent [of empty_responses "()", OF a b] by simp
qed

text \<open>
  Claim C10: when the client is created and the lookup, or after a failed lookup the
  create call, succeeds with a response that has no \<^verbatim>\<open>QueueUrl\<close>, the workflow goes
  on with the handle \<^verbatim>\<open>None\<close>: it makes the send call with that handle and, when the
  send call returns, the receive call with it as well.
\<close>

theorem workflow_none_handle:
  assumes "sqs ''boto3.client'' config s0 = (Inr c, s1)"
    and "(\<exists>res. sqs ''get_queue_url'' [(''QueueName'', PStr ''bruh'')] s1 = (Inr res, s2)
                \<and> map_of res ''QueueUrl'' = None)
         \<or> (\<exists>e s' res. sqs ''get_queue_url'' [(''QueueName'', PStr ''bruh'')] s1 = (Inl e, s')
                \<and> sqs ''create_queue'' [(''QueueName'', PStr ''bruh'')] s' = (Inr res, s2)
                \<and> map_of res ''QueueUrl'' = None)"
  shows "invocations ''send_message'' (snd (snd (workflow config names sqs s0))) = [send_kwargs PNone]
     \<and> ((\<exists>sent s3. sqs ''send_message'' (send_kwargs PNone) s2 = (Inr sent, s3)) \<longrightarrow>
          invocations ''receive_message'' (snd (snd (workflow config names sqs s0)))
            = [receive_kwargs names PNone])"
proof -
  have "resolve_queue sqs ''bruh'' s1 = (Inr PNone, s2, snd (snd (resolve_queue sqs ''bruh'' s1)))"
    using assms(2) by (auto simp: resolve_queue_def call_eq dict_get_def)
  moreover have "invocations ''send_message'' (snd (snd (resolve_queue sqs ''bruh'' s1))) = []"
    and "invocations ''receive_message'' (snd (snd (resolve_queue sqs ''bruh'' s1))) = []"
    by (simp_all add: resolve_queue_other)
  ultimately show ?thesis
    using assms(1)
    by (auto simp: workflow_unfold invocations_append split: sum.splits prod.splits)
qed

text \<open>
  Witness for claim C10: a lookup that returns an empty dictionary; both the send and
  the receive call of \<^verbatim>\<open>example.py\<close> are made with the handle \<^verbatim>\<open>None\<close>.
\<close>

theorem workflow_none_handle_witness:
  "empty_responses ''get_queue_url'' [(''QueueName'', PStr ''bruh'')] () = (Inr [], ())
   \<and> invocations ''send_message'' (snd (snd (example_main empty_responses ()))) = [send_kwargs PNone]
   \<and> invocations ''receive_message'' (snd (snd (example_main empty_responses ())))
       = [receive_kwargs [PStr ''Test''] PNone]"
proof -
  have client: "empty_responses ''boto3.client'' example_config () = (Inr [], ())"
    by (simp add: empty_responses_def)
  have lookup: "empty_responses ''get_queue_url'' [(''QueueName'', PStr ''bruh'')] () = (Inr [], ())"
    by (simp add: empty_responses_def)
  have resolved:
    "(\<exists>res. empty_responses ''get_queue_url'' [(''QueueName'', PStr ''bruh'')] () = (Inr res, ())
            \<and> map_of res ''QueueUrl'' = None)
     \<or> (\<exists>e s' res. empty_responses ''get_queue_url'' [(''QueueName'', PStr ''bruh'')] () = (Inl e, s')
            \<and> empty_responses ''create_queue'' [(''QueueName'', PStr ''bruh'')] s' = (Inr res, ())
            \<and> map_of res ''QueueUrl'' = None)"
    using lookup by simp
  have sent: "\<exists>sent s3. empty_responses ''send_message'' (send_kwargs PNone) () = (Inr sent, s3)"
    by (simp add: empty_responses_def)
  show ?thesis
    using lookup sent workflow_none_handle [of empty_responses example_config "()" "[]" "()" "()" "[PStr ''Test'']", OF client resolved]
    by (simp add: example_main_def)
qed

section \<open>Properties of the scripts against the queue service\<close>

subsection \<open>The calls of the scripts on the service\<close>

lemma nervemq_get_queue_url [simp]:
  "nervemq limit ''get_queue_url'' kw s = rpc_get_queue_url kw s"
  by (simp add: nervemq_def)

lemma nervemq_create_queue [simp]:
  "nervemq limit ''create_queue'' kw s = rpc_create_queue kw s"
  by (simp add: nervemq_def)

lemma nervemq_send_message [simp]:
  "nervemq limit ''send_message'' kw s = rpc_send_message limit kw s"
  by (simp add: nervemq_def)

lemma nervemq_receive_message [simp]:
  "nervemq limit ''receive_message'' kw s = rpc_receive_message kw s"
  by (simp add: nervemq_def)

lemma resolve_queue_nervemq:
  "resolve_queue (nervemq limit) name s =
     (case map_of (queues s) name of
        Some h \<Rightarrow>
          (Inr (PStr h), s,
           [Invoke ''get_queue_url'' [(''QueueName'', PStr name)],
            Complete (Inr [(''QueueUrl'', PStr h)])])
      | None \<Rightarrow>
          (Inr (PStr (handle_of name)),
           s\<lparr>queues := queues s @ [(name, handle_of name)]\<rparr>,
           [Invoke ''get_queue_url'' [(''QueueName'', PStr name)],
            Complete (Inl NotFoundError),
            Invoke ''create_queue'' [(''QueueName'', PStr name)],
            Complete (Inr [(''QueueUrl'', PStr (handle_of name))])]))"
  by (simp add: resolve_queue_def call_eq rpc_get_queue_url_def rpc_create_queue_def
      svc_lookup_queue_def svc_create_queue_def dict_get_def split: option.splits)

lemma publish_message_nervemq:
  assumes "h \<in> snd ` set (queues s)" and "12 \<le> limit"
  shows "publish_message (nervemq limit) (PStr h) s =
     (Inr [(''MessageId'', PStr (message_id (next_id s)))],
      s\<lparr>store := store s @
            [\<lparr>sm_queue = h, sm_id = message_id (next_id s), sm_body = ''Hello World!'',
              sm_attrs = [(''Test'', PDict [(''StringValue'', PStr ''TestString''),
                                           (''DataType'', PStr ''String'')])],
              sm_visible_at = clock s, sm_deliveries = 0\<rparr>],
        next_id := Suc (next_id s)\<rparr>,
      [Invoke ''send_message'' (send_kwargs (PStr h)),
       Complete (Inr [(''MessageId'', PStr (message_id (next_id s)))])])"
  using assms
  by (simp add: publish_message_def call_eq rpc_send_message_def svc_send_message_def
      send_kwargs_def dict_get_def)

lemma rpc_receive_message_kwargs:
  "rpc_receive_message (receive_kwargs (map PStr names) (PStr h)) s =
     (case svc_receive_messages h names 10 0 0 (Some ''1'') s of
        (Inl e, s') \<Rightarrow> (Inl e, s')
      | (Inr msgs, s') \<Rightarrow> (Inr [(''Messages'', PList msgs)], s'))"
  by (simp add: rpc_receive_message_def receive_kwargs_def dict_get_def list_all_iff comp_def)

lemma deliver_fields [simp]:
  "sm_id (deliver h maxn vt token s m) = sm_id m"
  "sm_body (deliver h maxn vt token s m) = sm_body m"
  "sm_attrs (deliver h maxn vt token s m) = sm_attrs m"
  "sm_queue (deliver h maxn vt token s m) = sm_queue m"
  by (simp_all add: deliver_def)

lemma poll_receive_nervemq:
  assumes "h \<in> snd ` set (queues s)"
  shows "poll_receive (nervemq limit) (map PStr names) (PStr h) s =
     (Inr [(''Messages'',
            PList (map (\<lambda>m. inbound names (deliver h 10 0 (Some ''1'') s m))
                     (receive_batch h 10 s)))],
      s\<lparr>store := map (deliver h 10 0 (Some ''1'') s) (store s),
        attempts := attempts s @ map (\<lambda>m. (h, ''1'', sm_id m)) (receive_batch h 10 s)\<rparr>,
      [Invoke ''receive_message'' (receive_kwargs (map PStr names) (PStr h)),
       Complete (Inr [(''Messages'',
            PList (map (\<lambda>m. inbound names (deliver h 10 0 (Some ''1'') s m))
                     (receive_batch h 10 s)))])])"
  using assms
  by (simp add: poll_receive_def call_eq rpc_receive_message_kwargs svc_receive_messages_def)

lemma poll_receive_nervemq_invalid:
  assumes "h \<notin> snd ` set (queues s)"
  shows "poll_receive (nervemq limit) (map PStr names) (PStr h) s =
     (Inl (ValidationError InvalidHandle), s,
      [Invoke ''receive_message'' (receive_kwargs (map PStr names) (PStr h)),
       Complete (Inl (ValidationError InvalidHandle))])"
  using assms
  by (simp add: poll_receive_def call_eq rpc_receive_message_kwargs svc_receive_messages_def)

lemma receive_batch_single:
  assumes "queue_messages h s = []" and "sm_queue m = h" and "sm_visible_at m \<le> clock s"
  shows "receive_batch h 10 (s\<lparr>store := store s @ [m], next_id := n\<rparr>) = [m]"
proof -
  have "filter (\<lambda>m. sm_queue m = h \<and> sm_visible_at m \<le> clock s) (store s) = []"
    using assms(1) by (auto simp: queue_messages_def filter_empty_conv)
  then show ?thesis using assms(2,3) by (simp add: receive_batch_def)
qed

lemma deliver_twice:
  "sm_deliveries
     (deliver h maxn' vt' (Some t)
        (s\<lparr>store := map (deliver h maxn vt (Some t) s) (store s),
           attempts := attempts s @ map (\<lambda>m. (h, t, sm_id m)) (receive_batch h maxn s)\<rparr>)
        (deliver h maxn vt (Some t) s m))
   \<le> Suc (sm_deliveries m)"
  by (auto simp: deliver_def replayed_def)

lemma message_id_nonempty: "message_id n \<noteq> []"
  by (simp add: message_id_def)

lemma bruh_only_valid: "''http://localhost:8080/sqs/bruh'' \<in> snd ` set (queues bruh_only)"
  by (simp add: bruh_only_def fresh_def)

lemma two_attributes_valid: "''http://localhost:8080/sqs/bruh'' \<in> snd ` set (queues two_attributes)"
  by (simp add: two_attributes_def bruh_only_def fresh_def)

subsection \<open>A run of \<^verbatim>\<open>example.py\<close> on a service just started\<close>

text \<open>
  The lookup finds no queue, the queue is created, the message is published and the poll
  returns it, with the attribute \<^verbatim>\<open>Test\<close>.
\<close>

lemma example_main_fresh:
  "example_main (nervemq 262144) fresh =
     (Inr (),
      \<lparr>queues = [(''bruh'', ''http://localhost:8080/sqs/bruh'')],
        store = [\<lparr>sm_queue = ''http://localhost:8080/sqs/bruh'', sm_id = ''m'',
                  sm_body = ''Hello World!'',
                  sm_attrs = [(''Test'', PDict [(''StringValue'', PStr ''TestString''),
                                               (''DataType'', PStr ''String'')])],
                  sm_visible_at = 0, sm_deliveries = 1\<rparr>],
        next_id = 1,
        attempts = [(''http://localhost:8080/sqs/bruh'', ''1'', ''m'')],
        clock = 0\<rparr>,
      [Invoke ''boto3.client'' example_config, Complete (Inr []),
       Invoke ''get_queue_url'' [(''QueueName'', PStr ''bruh'')], Complete (Inl NotFoundError),
       Invoke ''create_queue'' [(''QueueName'', PStr ''bruh'')],
       Complete (Inr [(''QueueUrl'', PStr ''http://localhost:8080/sqs/bruh'')]),
       Print ''Queue URL: '' (PStr ''http://localhost:8080/sqs/bruh''),
       Invoke ''send_message'' (send_kwargs (PStr ''http://localhost:8080/sqs/bruh'')),
       Complete (Inr [(''MessageId'', PStr ''m'')]),
       Print ''Message ID: '' (PStr ''m''),
       Invoke ''receive_message'' (receive_kwargs [PStr ''Test''] (PStr ''http://localhost:8080/sqs/bruh'')),
       Complete (Inr [(''Messages'', PList [PDict [(''MessageId'', PStr ''m''),
            (''Body'', PStr ''Hello World!''),
            (''MessageAttributes'', PDict [(''Test'', PDict [(''StringValue'', PStr ''TestString''),
                                               (''DataType'', PStr ''String'')])]),
            (''Attributes'', PDict [(''ApproximateReceiveCount'', PInt 1)])]])]),
       Print ''Messages: '' (PList [PDict [(''MessageId'', PStr ''m''),
            (''Body'', PStr ''Hello World!''),
            (''MessageAttributes'', PDict [(''Test'', PDict [(''StringValue'', PStr ''TestString''),
                                               (''DataType'', PStr ''String'')])]),
            (''Attributes'', PDict [(''ApproximateReceiveCount'', PInt 1)])]])])"
proof -
  have client: "nervemq 262144 ''boto3.client'' example_config fresh = (Inr [], fresh)"
    by (simp add: nervemq_def)
  have resolved: "resolve_queue (nervemq 262144) ''bruh'' fresh =
      (Inr (PStr ''http://localhost:8080/sqs/bruh''), bruh_only,
       [Invoke ''get_queue_url'' [(''QueueName'', PStr ''bruh'')],
        Complete (Inl NotFoundError),
        Invoke ''create_queue'' [(''QueueName'', PStr ''bruh'')],
        Complete (Inr [(''QueueUrl'', PStr ''http://localhost:8080/sqs/bruh'')])])"
    by (simp add: resolve_queue_nervemq fresh_def bruh_only_def handle_of_def)
  have sent: "rpc_send_message 262144 (send_kwargs (PStr ''http://localhost:8080/sqs/bruh'')) bruh_only
     = (Inr [(''MessageId'', PStr ''m'')],
        bruh_only\<lparr>store := [\<lparr>sm_queue = ''http://localhost:8080/sqs/bruh'', sm_id = ''m'',
                  sm_body = ''Hello World!'',
                  sm_attrs = [(''Test'', PDict [(''StringValue'', PStr ''TestString''),
                                               (''DataType'', PStr ''String'')])],
                  sm_visible_at = 0, sm_deliveries = 0\<rparr>], next_id := 1\<rparr>)"
    by (simp add: rpc_send_message_def svc_send_message_def send_kwargs_def dict_get_def
        bruh_only_def fresh_def message_id_def)
  show ?thesis
    by (simp add: example_main_def workflow_unfold client resolved sent)
       (simp add: rpc_receive_message_kwargs [of "[''Test'']", simplified] svc_receive_messages_def
          receive_batch_def deliver_def replayed_def inbound_def select_attrs_def
          bruh_only_def fresh_def dict_get_def)
qed

subsection \<open>Resolving twice\<close>

text \<open>
  Claim C3: for every queue name, two runs of ResolveQueue in sequence against the
  service, the second on the state the first left, return the same handle; the second run
  changes nothing, \<^verbatim>\<open>create_queue\<close> is called at most once in the two runs, and at
  most one queue is added.
\<close>

theorem resolve_queue_idempotent:
  assumes "resolve_queue (nervemq limit) name s = (r1, s1, t1)"
    and "resolve_queue (nervemq limit) name s1 = (r2, s2, t2)"
  shows "r2 = r1 \<and> (\<exists>h. r1 = Inr (PStr h)) \<and> s2 = s1
     \<and> length (invocations ''create_queue'' (t1 @ t2)) \<le> 1
     \<and> length (queues s2) \<le> Suc (length (queues s))"
  using assms
  by (auto simp: resolve_queue_nervemq split: option.splits)

text \<open>
  Witness for claim C3: on a service without queues the first run creates the queue of
  the scripts and the second finds it.
\<close>

theorem resolve_queue_idempotent_witness:
  "fst (resolve_queue (nervemq 262144) ''bruh'' fresh) = Inr (PStr ''http://localhost:8080/sqs/bruh'')
   \<and> fst (snd (resolve_queue (nervemq 262144) ''bruh'' fresh)) = bruh_only
   \<and> fst (resolve_queue (nervemq 262144) ''bruh'' bruh_only)
       = Inr (PStr ''http://localhost:8080/sqs/bruh'')
   \<and> fst (snd (resolve_queue (nervemq 262144) ''bruh'' bruh_only)) = bruh_only
   \<and> methods (snd (snd (resolve_queue (nervemq 262144) ''bruh'' fresh)))
       = [''get_queue_url'', ''create_queue'']
   \<and> methods (snd (snd (resolve_queue (nervemq 262144) ''bruh'' bruh_only))) = [''get_queue_url'']"
proof -
  have first: "resolve_queue (nervemq 262144) ''bruh'' fresh =
      (Inr (PStr ''http://localhost:8080/sqs/bruh''), bruh_only,
       [Invoke ''get_queue_url'' [(''QueueName'', PStr ''bruh'')],
        Complete (Inl NotFoundError),
        Invoke ''create_queue'' [(''QueueName'', PStr ''bruh'')],
        Complete (Inr [(''QueueUrl'', PStr ''http://localhost:8080/sqs/bruh'')])])"
    by (simp add: resolve_queue_nervemq fresh_def bruh_only_def handle_of_def)
  have second: "resolve_queue (nervemq 262144) ''bruh'' bruh_only =
      (Inr (PStr ''http://localhost:8080/sqs/bruh''), bruh_only,
       [Invoke ''get_queue_url'' [(''QueueName'', PStr ''bruh'')],
        Complete (Inr [(''QueueUrl'', PStr ''http://localhost:8080/sqs/bruh'')])])"
    by (simp add: resolve_queue_nervemq fresh_def bruh_only_def)
  show ?thesis
    using first second resolve_queue_idempotent [OF first second] by simp
qed

subsection \<open>Publishing\<close>

text \<open>
  Claim C5: PublishMessage with the body and the attribute of the scripts, on the handle
  of an existing queue and with a size limit that admits the body, returns a MessageId
  that is not empty; and in every run of the workflow, on any client, every send call
  carries attributes each of which has an explicit \<^verbatim>\<open>DataType\<close> tag.
\<close>

theorem publish_message_typed:
  "(h \<in> snd ` set (queues s) \<and> 12 \<le> limit \<longrightarrow>
      (\<exists>mid. mid \<noteq> [] \<and>
         fst (publish_message (nervemq limit) (PStr h) s) = Inr [(''MessageId'', PStr mid)]))
   \<and> list_all explicitly_typed
        (invocations ''send_message'' (snd (snd (workflow config names sqs s0))))"
  by (simp add: publish_message_nervemq message_id_nonempty workflow_sends_typed)

text \<open>
  Witness for claim C5: the first message published to the queue of the scripts gets
  the id \<^verbatim>\<open>m\<close>; the send call of \<^verbatim>\<open>example.py\<close> is explicitly typed.
\<close>

theorem publish_message_typed_witness:
  "''http://localhost:8080/sqs/bruh'' \<in> snd ` set (queues bruh_only) \<and> (12::nat) \<le> 262144
   \<and> fst (publish_message (nervemq 262144) (PStr ''http://localhost:8080/sqs/bruh'') bruh_only)
       = Inr [(''MessageId'', PStr ''m'')]
   \<and> invocations ''send_message'' (snd (snd (example_main empty_responses ()))) = [send_kwargs PNone]
   \<and> explicitly_typed (send_kwargs PNone)"
proof -
  have sent: "fst (publish_message (nervemq 262144) (PStr ''http://localhost:8080/sqs/bruh'') bruh_only)
                = Inr [(''MessageId'', PStr ''m'')]"
    by (simp add: publish_message_nervemq bruh_only_valid)
       (simp add: bruh_only_def fresh_def message_id_def)
  show ?thesis
    using sent bruh_only_valid
      publish_message_typed [of "''http://localhost:8080/sqs/bruh''" bruh_only 262144
         example_config "[PStr ''Test'']" empty_responses "()"]
    by (simp add: example_main_def workflow_empty_responses)
qed

subsection \<open>Publishing, then polling\<close>

text \<open>
  Claim C4: on a queue that held no message, after PublishMessage with the body
  \<^verbatim>\<open>Hello World!\<close> (so that the queue holds exactly that one message), PollReceive
  with the parameters of the scripts (at most 10 messages, visibility timeout 0, wait 0)
  returns a batch of one message, whose body is \<^verbatim>\<open>Hello World!\<close> and whose
  MessageId is the one PublishMessage returned.
\<close>

theorem publish_then_poll:
  assumes "h \<in> snd ` set (queues s)" and "12 \<le> limit" and "queue_messages h s = []"
    and "publish_message (nervemq limit) (PStr h) s = (sent, s1, t1)"
    and "poll_receive (nervemq limit) (map PStr names) (PStr h) s1 = (received, s2, t2)"
  shows "\<exists>mid msg. sent = Inr [(''MessageId'', PStr mid)]
     \<and> received = Inr [(''Messages'', PList [msg])]
     \<and> item msg ''Body'' = PStr ''Hello World!''
     \<and> item msg ''MessageId'' = PStr mid"
proof -
  define m where "m = \<lparr>sm_queue = h, sm_id = message_id (next_id s), sm_body = ''Hello World!'',
              sm_attrs = [(''Test'', PDict [(''StringValue'', PStr ''TestString''),
                                           (''DataType'', PStr ''String'')])],
              sm_visible_at = clock s, sm_deliveries = 0\<rparr>"
  define s' where "s' = s\<lparr>store := store s @ [m], next_id := Suc (next_id s)\<rparr>"
  have sent: "sent = Inr [(''MessageId'', PStr (message_id (next_id s)))]" and s1: "s1 = s'"
    using assms(1,2,4) by (simp_all add: publish_message_nervemq m_def s'_def)
  have valid: "h \<in> snd ` set (queues s')"
    using assms(1) by (simp add: s'_def)
  have batch: "receive_batch h 10 s' = [m]"
    unfolding s'_def using assms(3) by (rule receive_batch_single) (simp_all add: m_def)
  have "received = Inr [(''Messages'', PList [inbound names (deliver h 10 0 (Some ''1'') s' m)])]"
    using assms(5) by (simp add: s1 poll_receive_nervemq [OF valid] batch)
  moreover have "item (inbound names (deliver h 10 0 (Some ''1'') s' m)) ''Body''
                   = PStr ''Hello World!''"
    by (simp add: inbound_def item_def dict_get_def m_def)
  moreover have "item (inbound names (deliver h 10 0 (Some ''1'') s' m)) ''MessageId''
                   = PStr (message_id (next_id s))"
    by (simp add: inbound_def item_def dict_get_def m_def)
  ultimately show ?thesis using sent by blast
qed

text \<open>
  Witness for claim C4: on the service with the empty queue of the scripts, the message
  published gets the id \<^verbatim>\<open>m\<close> and the poll of \<^verbatim>\<open>example.py\<close> returns it.
\<close>

theorem publish_then_poll_witness:
  "queue_messages ''http://localhost:8080/sqs/bruh'' bruh_only = []
   \<and> fst (publish_message (nervemq 262144) (PStr ''http://localhost:8080/sqs/bruh'') bruh_only)
       = Inr [(''MessageId'', PStr ''m'')]
   \<and> (\<exists>msg. fst (poll_receive (nervemq 262144) [PStr ''Test''] (PStr ''http://localhost:8080/sqs/bruh'')
                (fst (snd (publish_message (nervemq 262144)
                             (PStr ''http://localhost:8080/sqs/bruh'') bruh_only))))
           = Inr [(''Messages'', PList [msg])]
         \<and> item msg ''Body'' = PStr ''Hello World!''
         \<and> item msg ''MessageId'' = PStr ''m'')"
proof -
  have empty: "queue_messages ''http://localhost:8080/sqs/bruh'' bruh_only = []"
    by (simp add: queue_messages_def bruh_only_def fresh_def)
  have limit: "(12::nat) \<le> 262144"
    by simp
  obtain sent s1 t1 where published:
    "publish_message (nervemq 262144) (PStr ''http://localhost:8080/sqs/bruh'') bruh_only
       = (sent, s1, t1)"
    using prod_cases3 by blast
  obtain received s2 t2 where polled:
    "poll_receive (nervemq 262144) (map PStr [''Test'']) (PStr ''http://localhost:8080/sqs/bruh'') s1
       = (received, s2, t2)"
    using prod_cases3 by blast
  have first: "sent = Inr [(''MessageId'', PStr ''m'')]"
    using published
    by (simp add: publish_message_nervemq bruh_only_valid)
       (simp add: bruh_only_def fresh_def message_id_def)
  show ?thesis
    using empty first published polled
      publish_then_poll [OF bruh_only_valid limit empty published polled]
    by auto
qed

subsection \<open>The attributes returned\<close>

text \<open>
  Claim C6: PollReceive on an existing queue with the attribute names \<^verbatim>\<open>['Test']\<close>
  (as in \<^verbatim>\<open>example.py\<close>) returns, for each message of the batch, the attributes of
  the message named \<^verbatim>\<open>Test\<close> and no other, none when the message has none of that
  name; with the attribute names \<^verbatim>\<open>['All']\<close> (as in \<^verbatim>\<open>main.py\<close>) it returns every
  attribute stored with the message.
\<close>

theorem poll_receive_attributes:
  assumes "h \<in> snd ` set (queues s)"
  shows "\<exists>only_test every.
       fst (poll_receive (nervemq limit) [PStr ''Test''] (PStr h) s)
         = Inr [(''Messages'', PList only_test)]
     \<and> fst (poll_receive (nervemq limit) [PStr ''All''] (PStr h) s)
         = Inr [(''Messages'', PList every)]
     \<and> map (\<lambda>x. item x ''MessageId'') only_test
         = map (\<lambda>m. PStr (sm_id m)) (receive_batch h 10 s)
     \<and> map (\<lambda>x. item x ''MessageId'') every
         = map (\<lambda>m. PStr (sm_id m)) (receive_batch h 10 s)
     \<and> map (\<lambda>x. item x ''MessageAttributes'') only_test
         = map (\<lambda>m. PDict (filter (\<lambda>(n, a). n = ''Test'') (sm_attrs m))) (receive_batch h 10 s)
     \<and> map (\<lambda>x. item x ''MessageAttributes'') every
         = map (\<lambda>m. PDict (sm_attrs m)) (receive_batch h 10 s)"
  using assms poll_receive_nervemq [of h s limit "[''Test'']"]
    poll_receive_nervemq [of h s limit "[''All'']"]
  by (simp add: inbound_def item_def dict_get_def select_attrs_def comp_def)

text \<open>
  Witness for claim C6: the message of \<open>two_attributes\<close> carries \<^verbatim>\<open>Test\<close> and
  \<^verbatim>\<open>Other\<close>; the poll of \<^verbatim>\<open>example.py\<close> returns \<^verbatim>\<open>Test\<close> alone, the poll of
  \<^verbatim>\<open>main.py\<close> both.
\<close>

theorem poll_receive_attributes_witness:
  "''http://localhost:8080/sqs/bruh'' \<in> snd ` set (queues two_attributes)
   \<and> (\<exists>only_test every.
       fst (poll_receive (nervemq 262144) [PStr ''Test''] (PStr ''http://localhost:8080/sqs/bruh'')
              two_attributes)
         = Inr [(''Messages'', PList only_test)]
     \<and> fst (poll_receive (nervemq 262144) [PStr ''All''] (PStr ''http://localhost:8080/sqs/bruh'')
              two_attributes)
         = Inr [(''Messages'', PList every)]
     \<and> map (\<lambda>x. item x ''MessageAttributes'') only_test
         = [PDict [(''Test'', PDict [(''StringValue'', PStr ''TestString''),
                                    (''DataType'', PStr ''String'')])]]
     \<and> map (\<lambda>x. item x ''MessageAttributes'') every
         = [PDict [(''Test'', PDict [(''StringValue'', PStr ''TestString''),
                                    (''DataType'', PStr ''String'')]),
                   (''Other'', PDict [(''StringValue'', PStr ''7''),
                                     (''DataType'', PStr ''Number'')])]])"
proof -
  have batch: "map sm_attrs (receive_batch ''http://localhost:8080/sqs/bruh'' 10 two_attributes)
      = [[(''Test'', PDict [(''StringValue'', PStr ''TestString''), (''DataType'', PStr ''String'')]),
          (''Other'', PDict [(''StringValue'', PStr ''7''), (''DataType'', PStr ''Number'')])]]"
    by (simp add: receive_batch_def two_attributes_def bruh_only_def fresh_def)
  have test: "map (\<lambda>m. PDict (filter (\<lambda>(n, a). n = ''Test'') (sm_attrs m)))
                (receive_batch ''http://localhost:8080/sqs/bruh'' 10 two_attributes)
      = [PDict [(''Test'', PDict [(''StringValue'', PStr ''TestString''),
                                 (''DataType'', PStr ''String'')])]]"
    by (simp add: receive_batch_def two_attributes_def bruh_only_def fresh_def)
  have every: "map (\<lambda>m. PDict (sm_attrs m))
                 (receive_batch ''http://localhost:8080/sqs/bruh'' 10 two_attributes)
      = [PDict [(''Test'', PDict [(''StringValue'', PStr ''TestString''),
                                 (''DataType'', PStr ''String'')]),
                (''Other'', PDict [(''StringValue'', PStr ''7''),
                                  (''DataType'', PStr ''Number'')])]]"
    by (simp add: receive_batch_def two_attributes_def bruh_only_def fresh_def)
  show ?thesis
    using two_attributes_valid poll_receive_attributes [OF two_attributes_valid, of 262144]
    unfolding test every by auto
qed

subsection \<open>The deduplication token\<close>

text \<open>
  Claim C7: in every run of the workflow, on any client, every receive call carries the
  token \<^verbatim>\<open>'1'\<close> that the script supplies, unchanged. Two PollReceive calls in sequence
  on the same handle are therefore the same request to the service, token included, and
  the service counts no message as newly delivered by both: after the two calls the number
  of deliveries of each stored message has grown by one at most.
\<close>

theorem poll_receive_same_attempt:
  assumes "poll_receive (nervemq limit) (map PStr ns) (PStr h) s = (r1, s1, t1)"
    and "poll_receive (nervemq limit) (map PStr ns) (PStr h) s1 = (r2, s2, t2)"
  shows "list_all (\<lambda>kw. dict_get kw ''ReceiveRequestAttemptId'' = PStr ''1'')
           (invocations ''receive_message'' (snd (snd (workflow config names sqs s0))))
     \<and> invocations ''receive_message'' t1 = [receive_kwargs (map PStr ns) (PStr h)]
     \<and> invocations ''receive_message'' t2 = invocations ''receive_message'' t1
     \<and> list_all2 (\<lambda>m m'. sm_id m' = sm_id m \<and> sm_deliveries m' \<le> Suc (sm_deliveries m))
          (store s) (store s2)"
proof -
  have requests: "invocations ''receive_message'' t1 = [receive_kwargs (map PStr ns) (PStr h)]"
    "invocations ''receive_message'' t2 = [receive_kwargs (map PStr ns) (PStr h)]"
    using assms by (auto simp: poll_receive_def call_eq)
  have counted: "list_all2 (\<lambda>m m'. sm_id m' = sm_id m \<and> sm_deliveries m' \<le> Suc (sm_deliveries m))
          (store s) (store s2)"
  proof (cases "h \<in> snd ` set (queues s)")
    case True
    define s' where "s' = s\<lparr>store := map (deliver h 10 0 (Some ''1'') s) (store s),
          attempts := attempts s @ map (\<lambda>m. (h, ''1'', sm_id m)) (receive_batch h 10 s)\<rparr>"
    have s1: "s1 = s'"
      using assms(1) True by (simp add: poll_receive_nervemq s'_def)
    have "h \<in> snd ` set (queues s')"
      using True by (simp add: s'_def)
    then have s2: "store s2 = map (deliver h 10 0 (Some ''1'') s') (store s')"
      using assms(2) by (auto simp: s1 poll_receive_nervemq)
    have "store s' = map (deliver h 10 0 (Some ''1'') s) (store s)"
      by (simp add: s'_def)
    then have "store s2 = map (\<lambda>m. deliver h 10 0 (Some ''1'') s' (deliver h 10 0 (Some ''1'') s m))
                              (store s)"
      by (simp add: s2)
    then show ?thesis
      using deliver_twice [of h 10 0 "''1''" s 10 0]
      by (simp add: list_all2_conv_all_nth s'_def)
  next
    case False
    then have "s1 = s" using assms(1) by (simp add: poll_receive_nervemq_invalid)
    then have "s2 = s" using assms(2) False by (simp add: poll_receive_nervemq_invalid)
    then show ?thesis by (simp add: list_all2_conv_all_nth)
  qed
  show ?thesis
    using requests counted workflow_receives_token [of config names sqs s0] by simp
qed

text \<open>
  Witness for claim C7: two polls of \<^verbatim>\<open>example.py\<close> on the queue with one message; the
  message has been delivered once after the first poll and once after the second.
\<close>

theorem poll_receive_same_attempt_witness:
  "map sm_deliveries (store two_attributes) = [0]
   \<and> map sm_deliveries
       (store (fst (snd (poll_receive (nervemq 262144) [PStr ''Test'']
                           (PStr ''http://localhost:8080/sqs/bruh'') two_attributes)))) = [1]
   \<and> list_all2 (\<lambda>m m'. sm_id m' = sm_id m \<and> sm_deliveries m' \<le> Suc (sm_deliveries m))
       (store two_attributes)
       (store (fst (snd (poll_receive (nervemq 262144) [PStr ''Test'']
                           (PStr ''http://localhost:8080/sqs/bruh'')
          (fst (snd (poll_receive (nervemq 262144) [PStr ''Test'']
                           (PStr ''http://localhost:8080/sqs/bruh'') two_attributes)))))))
   \<and> list_all (\<lambda>kw. dict_get kw ''ReceiveRequestAttemptId'' = PStr ''1'')
       (invocations ''receive_message'' (snd (snd (example_main empty_responses ()))))"
proof -
  obtain r1 s1 t1 where first:
    "poll_receive (nervemq 262144) (map PStr [''Test'']) (PStr ''http://localhost:8080/sqs/bruh'')
       two_attributes = (r1, s1, t1)"
    using prod_cases3 by blast
  obtain r2 s2 t2 where second:
    "poll_receive (nervemq 262144) (map PStr [''Test'']) (PStr ''http://localhost:8080/sqs/bruh'')
       s1 = (r2, s2, t2)"
    using prod_cases3 by blast
  have before: "map sm_deliveries (store two_attributes) = [0]"
    by (simp add: two_attributes_def bruh_only_def fresh_def)
  have "s1 = fst (snd (poll_receive (nervemq 262144) (map PStr [''Test''])
                         (PStr ''http://localhost:8080/sqs/bruh'') two_attributes))"
    using first by simp
  then have "store s1 = map (deliver ''http://localhost:8080/sqs/bruh'' 10 0 (Some ''1'') two_attributes)
                          (store two_attributes)"
    by (simp only: poll_receive_nervemq [OF two_attributes_valid]) simp
  then have after: "map sm_deliveries (store s1) = [1]"
    by (simp add: two_attributes_def bruh_only_def fresh_def receive_batch_def deliver_def
          replayed_def)
  show ?thesis
    using before after first second
      poll_receive_same_attempt [OF first second, of example_config "[PStr ''Test'']" empty_responses "()"]
    by (simp add: example_main_def)
qed

end
